theory Spec2Isabelle
  imports Main
begin

section \<open>Keys, levels and severity labels (sloggcp.go, error\_reporting.go)\<close>

named_theorems key_defs \<open>the string constants of the package\<close>

definition SeverityKey :: string where
  "SeverityKey = ''severity''"

definition MessageKey :: string where
  "MessageKey = ''message''"

definition SourceLocationKey :: string where
  "SourceLocationKey = ''logging.googleapis.com/sourceLocation''"

definition TimeKey :: string where
  "TimeKey = ''time''"

definition ErrorKey :: string where
  "ErrorKey = ''error''"

definition ErrorReportTypeKey :: string where
  "ErrorReportTypeKey = ''@type''"

definition ErrorReportTypeValue :: string where
  "ErrorReportTypeValue =
     ''type.googleapis.com/google.devtools.clouderrorreporting.v1beta1.ReportedErrorEvent''"

definition ReportLocationKey :: string where
  "ReportLocationKey = ''reportLocation''"

definition FilePathKey :: string where
  "FilePathKey = ''filePath''"

definition LineNumberKey :: string where
  "LineNumberKey = ''lineNumber''"

definition FunctionNameKey :: string where
  "FunctionNameKey = ''functionName''"

text \<open>The keys of log/slog, which \<open>ReplaceAttr\<close> of replace.go rewrites.\<close>

definition slog_TimeKey :: string where
  "slog_TimeKey = ''time''"

definition slog_LevelKey :: string where
  "slog_LevelKey = ''level''"

definition slog_MessageKey :: string where
  "slog_MessageKey = ''msg''"

definition slog_SourceKey :: string where
  "slog_SourceKey = ''source''"

text \<open>
  \<open>slog.Level\<close> is a Go \<open>int\<close>. The package only compares levels, so the
  unbounded \<open>int\<close> stands for it: every machine level is among them.
\<close>

type_synonym Level = int

definition LevelDebug :: Level where "LevelDebug = - 4"
definition LevelInfo :: Level where "LevelInfo = 0"
definition LevelNotice :: Level where "LevelNotice = LevelInfo + 2"
definition LevelWarning :: Level where "LevelWarning = 4"
definition LevelError :: Level where "LevelError = 8"
definition LevelCritical :: Level where "LevelCritical = LevelError + 2"
definition LevelAlert :: Level where "LevelAlert = LevelError + 4"
definition LevelEmergency :: Level where "LevelEmergency = LevelError + 6"

named_theorems level_defs \<open>the level thresholds\<close>

definition DefaultSeverity :: string where "DefaultSeverity = ''DEFAULT''"
definition DebugSeverity :: string where "DebugSeverity = ''DEBUG''"
definition InfoSeverity :: string where "InfoSeverity = ''INFO''"
definition NoticeSeverity :: string where "NoticeSeverity = ''NOTICE''"
definition WarningSeverity :: string where "WarningSeverity = ''WARNING''"
definition ErrorSeverity :: string where "ErrorSeverity = ''ERROR''"
definition CriticalSeverity :: string where "CriticalSeverity = ''CRITICAL''"
definition AlertSeverity :: string where "AlertSeverity = ''ALERT''"
definition EmergencySeverity :: string where "EmergencySeverity = ''EMERGENCY''"

named_theorems severity_defs \<open>the severity labels\<close>

definition severityFromLevel :: "Level \<Rightarrow> string" where
  "severityFromLevel level =
     (if level \<ge> LevelEmergency then EmergencySeverity
      else if level \<ge> LevelAlert then AlertSeverity
      else if level \<ge> LevelCritical then CriticalSeverity
      else if level \<ge> LevelError then ErrorSeverity
      else if level \<ge> LevelWarning then WarningSeverity
      else if level \<ge> LevelNotice then NoticeSeverity
      else if level \<ge> LevelInfo then InfoSeverity
      else if level \<ge> LevelDebug then DebugSeverity
      else DefaultSeverity)"

text \<open>
  The rank of a label is its position in the list of severities of sloggcp.go, which
  follows the order of GCP's LogSeverity. A string that is no label has rank 9.
\<close>

definition severities :: "string list" where
  "severities =
     [DefaultSeverity, DebugSeverity, InfoSeverity, NoticeSeverity, WarningSeverity,
      ErrorSeverity, CriticalSeverity, AlertSeverity, EmergencySeverity]"

fun index_of :: "string \<Rightarrow> string list \<Rightarrow> nat" where
  "index_of s [] = 0"
| "index_of s (x # xs) = (if s = x then 0 else Suc (index_of s xs))"

definition severityRank :: "string \<Rightarrow> nat" where
  "severityRank s = index_of s severities"

section \<open>Go values as the package sees them\<close>

record ReportLocation =
  FilePath :: string
  LineNumber :: int
  FunctionName :: string

record slog_Source =
  Function :: string
  File :: string
  Line :: int

text \<open>
  A Go value of type \<open>any\<close>. The package tells values apart by type assertions and
  type switches only, so a value is one of the concrete types it names (\<open>string\<close>,
  \<open>slog.Level\<close>, \<open>*slog.Source\<close>, the \<open>[]slog.Attr\<close> of a group, the
  \<open>map[string]any\<close> it builds itself, an \<open>int64\<close>), or any other value
  \<open>Obj\<close>. The arguments of \<open>Obj\<close> are a name that tells values with the same
  methods apart, and, for each method the package asks for, what it returns when the
  value has it: \<open>LogValue()\<close>, \<open>MarshalJSON()\<close> or \<open>MarshalText()\<close> (only
  whether it is there), \<open>Error()\<close>, \<open>String()\<close>, \<open>StackTrace()\<close> and
  \<open>ReportLocation()\<close>. A \<open>slog.Value\<close> is identified with the value its method
  \<open>Any()\<close> returns; its kind is \<open>KindGroup\<close> exactly when that is an
  \<open>AttrsV\<close>. \<open>LogValue\<close> returns a smaller value, so the recursion of
  \<open>extractValue\<close> ends.
\<close>

datatype any =
    Str string
  | Int64V int
  | LevelV Level
  | SourceP "slog_Source option"
  | AttrsV "(string \<times> any) list"
  | MapV "string \<Rightarrow> any option"
  | Obj string "any option" bool "string option" "string option"
        "(string \<times> bool) option" "ReportLocation option option"

type_synonym Attr = "string \<times> any"

type_synonym omap = "string \<Rightarrow> any option"

text \<open>
  \<open>(*ReportLocation).LogValue\<close>, and a non-nil \<open>*ReportLocation\<close> as a value: its
  only method is \<open>LogValue\<close>.
\<close>

definition ReportLocation_LogValue :: "ReportLocation \<Rightarrow> any" where
  "ReportLocation_LogValue r =
     AttrsV [(FilePathKey, Str (FilePath r)),
             (LineNumberKey, Int64V (LineNumber r)),
             (FunctionNameKey, Str (FunctionName r))]"

definition LocP :: "ReportLocation \<Rightarrow> any" where
  "LocP r = Obj ''*sloggcp.ReportLocation'' (Some (ReportLocation_LogValue r))
               False None None None None"

text \<open>The type assertions of the package: \<open>Some\<close> of what the method returns.\<close>

fun asLogValuer :: "any \<Rightarrow> any option" where
  "asLogValuer (Obj n lv m e s st rl) = lv"
| "asLogValuer _ = None"

fun asError :: "any \<Rightarrow> string option" where
  "asError (Obj n lv m e s st rl) = e"
| "asError _ = None"

text \<open>
  \<open>StackTraceError\<close> and \<open>ReportLocationError\<close> embed \<open>error\<close>: a value
  satisfies them only when it has the method \<open>Error\<close> too.
\<close>

fun asStackTraceError :: "any \<Rightarrow> (string \<times> bool) option" where
  "asStackTraceError (Obj n lv m e s st rl) = (if e = None then None else st)"
| "asStackTraceError _ = None"

fun asReportLocationError :: "any \<Rightarrow> ReportLocation option option" where
  "asReportLocationError (Obj n lv m e s st rl) = (if e = None then None else rl)"
| "asReportLocationError _ = None"

section \<open>extractValue (sloggcp.go)\<close>

text \<open>
  The loop over the attributes of a group is \<open>extractGroup\<close>: it stores each flattened
  value under its key in the map built so far. \<open>slog.Level\<close> has the methods
  \<open>MarshalJSON\<close> and \<open>MarshalText\<close>, so it is returned as it is; strings, integers,
  maps and \<open>*slog.Source\<close> have none of the methods and reach the default case.
\<close>

fun extractValue :: "any \<Rightarrow> any"
  and extractGroup :: "Attr list \<Rightarrow> omap \<Rightarrow> omap" where
  "extractValue (AttrsV attr) = MapV (extractGroup attr Map.empty)"
| "extractValue (Obj n lv m e s st rl) =
     (case lv of
        Some v \<Rightarrow> extractValue v
      | None \<Rightarrow>
          if m then Obj n lv m e s st rl
          else (case e of
                  Some msg \<Rightarrow> Str msg
                | None \<Rightarrow>
                    (case s of
                       Some str \<Rightarrow> Str str
                     | None \<Rightarrow> Obj n lv m e s st rl)))"
| "extractValue (Str s) = Str s"
| "extractValue (Int64V i) = Int64V i"
| "extractValue (LevelV l) = LevelV l"
| "extractValue (SourceP p) = SourceP p"
| "extractValue (MapV f) = MapV f"
| "extractGroup [] m = m"
| "extractGroup (a # attr) m = extractGroup attr (m(fst a \<mapsto> extractValue (snd a)))"

section \<open>The runtime and the standard library\<close>

text \<open>
  What the package takes from outside itself is a parameter of the model: the verbs
  \<open>%T\<close> and \<open>%v\<close> of \<open>fmt\<close>, \<open>slog.Value.String\<close> on a value that is no
  string, \<open>time.Time.Format\<close> with \<open>time.RFC3339Nano\<close>, the path the compiler
  recorded for error\_reporting.go, the frames of the goroutine above
  \<open>assertErrorValue\<close>, innermost first, and what \<open>runtime.Caller\<close> gives
  \<open>NewReportLocation\<close> for an argument that is not positive (its own frame at 0,
  the runtime's below).
\<close>

record frame =
  frame_file :: string
  frame_line :: int
  frame_func :: "string option"

record runtime =
  fmtT :: "any \<Rightarrow> string"
  fmtV :: "any \<Rightarrow> string"
  fmtValue :: "any \<Rightarrow> string"
  formatRFC3339Nano :: "int \<Rightarrow> string"
  thisFile :: string
  callers :: "frame list"
  callerBelow :: "int \<Rightarrow> frame option"

section \<open>Error reports (error\_reporting.go)\<close>

text \<open>
  \<open>NewReportLocation rt stack skip\<close>: \<open>stack\<close> holds the frames from the caller
  of \<open>NewReportLocation\<close> upwards. \<open>skip\<close> is a Go \<open>int\<close>, taken as 64 bits
  wide, and \<open>skip + 1\<close> wraps around. For a positive \<open>n\<close>,
  \<open>runtime.Caller(n)\<close> reads the frame at index \<open>n - 1\<close> of \<open>stack\<close> and fails
  beyond the end; for the others it is \<open>callerBelow\<close>. \<open>frame_func\<close> is
  \<open>None\<close> where \<open>runtime.FuncForPC\<close> returns nil.
\<close>

definition wrap_int :: "int \<Rightarrow> int" where
  "wrap_int x = (x + 2 ^ 63) mod 2 ^ 64 - 2 ^ 63"

fun nth_opt :: "'a list \<Rightarrow> nat \<Rightarrow> 'a option" where
  "nth_opt [] n = None"
| "nth_opt (x # xs) 0 = Some x"
| "nth_opt (x # xs) (Suc n) = nth_opt xs n"

definition runtime_Caller :: "runtime \<Rightarrow> frame list \<Rightarrow> int \<Rightarrow> frame option" where
  "runtime_Caller rt stack n =
     (if 1 \<le> n then nth_opt stack (nat (n - 1)) else callerBelow rt n)"

definition NewReportLocation ::
  "runtime \<Rightarrow> frame list \<Rightarrow> int \<Rightarrow> ReportLocation option" where
  "NewReportLocation rt stack skip =
     (case runtime_Caller rt stack (wrap_int (skip + 1)) of
        None \<Rightarrow> None
      | Some fr \<Rightarrow>
          (case frame_func fr of
             None \<Rightarrow> None
           | Some name \<Rightarrow>
               Some \<lparr>FilePath = frame_file fr, LineNumber = frame_line fr,
                     FunctionName = name\<rparr>))"

text \<open>The frame of \<open>assertErrorValue\<close> at its call of \<open>NewReportLocation\<close> (line 66).\<close>

definition assertErrorValue_frame :: "runtime \<Rightarrow> frame" where
  "assertErrorValue_frame rt =
     \<lparr>frame_file = thisFile rt, frame_line = 66,
      frame_func = Some ''github.com/zitadel/sloggcp.assertErrorValue''\<rparr>"

definition assertErrorValue :: "runtime \<Rightarrow> any \<Rightarrow> string \<times> ReportLocation option" where
  "assertErrorValue rt v =
     (let errMsg = (case asStackTraceError v of
                      Some (trace, traceOk) \<Rightarrow> if traceOk then trace else []
                    | None \<Rightarrow> []);
          reportLocation = (case asReportLocationError v of
                              Some l \<Rightarrow> l
                            | None \<Rightarrow> None)
      in if errMsg \<noteq> [] then (errMsg, reportLocation)
         else (case asError v of
                 Some msg \<Rightarrow> (msg, reportLocation)
               | None \<Rightarrow>
                   (case v of
                      Str s \<Rightarrow> (s, reportLocation)
                    | _ \<Rightarrow>
                        (''sloggcp: unsupported type '' @ fmtT rt v @ '' with value ''
                           @ fmtV rt v,
                         NewReportLocation rt (assertErrorValue_frame rt # callers rt) 0))))"

text \<open>
  \<open>checkAndSetErrorReport\<close> returns whether the attribute was the error, and the map
  \<open>out\<close> as it leaves it.
\<close>

definition checkAndSetErrorReport :: "runtime \<Rightarrow> Attr \<Rightarrow> omap \<Rightarrow> bool \<times> omap" where
  "checkAndSetErrorReport rt a out =
     (if fst a \<noteq> ErrorKey then (False, out)
      else
        let v = snd a;
            (errMsg, reportLocation) = assertErrorValue rt v;
            out1 = out(ErrorReportTypeKey \<mapsto> Str ErrorReportTypeValue);
            out2 = out1(MessageKey \<mapsto> Str errMsg);
            out3 = out2(ErrorKey \<mapsto> v);
            out4 = (case reportLocation of
                      None \<Rightarrow> out3
                    | Some l \<Rightarrow> out3(ReportLocationKey \<mapsto> LocP l));
            out5 = (case asLogValuer v of
                      Some lv \<Rightarrow> out4(ErrorKey \<mapsto> extractValue lv)
                    | None \<Rightarrow>
                        (case asError v of
                           Some msg \<Rightarrow> out4(ErrorKey \<mapsto> Str msg)
                         | None \<Rightarrow> out4))
        in (True, out5))"


section \<open>The handler (sloggcp.go)\<close>

record groupOrAttrs =
  group :: string
  attrs :: "Attr list"

record HandlerOptions =
  AddSource :: bool
  Level_opt :: "Level option"
  ReplaceAttr_opt :: "(string list \<Rightarrow> Attr \<Rightarrow> Attr) option"

definition DefaultOpts :: HandlerOptions where
  "DefaultOpts = \<lparr>AddSource = False, Level_opt = Some LevelInfo, ReplaceAttr_opt = None\<rparr>"

text \<open>
  The mutex and the JSON encoder of the handler are left out: \<open>Handle\<close> below returns
  the map it hands to the encoder.
\<close>

record handler =
  opts :: HandlerOptions
  goas :: "groupOrAttrs list"

definition NewErrorReportingHandler :: "HandlerOptions option \<Rightarrow> handler" where
  "NewErrorReportingHandler o_opt =
     (let opts1 = (case o_opt of None \<Rightarrow> DefaultOpts | Some x \<Rightarrow> x);
          opts2 = (if Level_opt opts1 = None
                   then opts1\<lparr>Level_opt := Level_opt DefaultOpts\<rparr> else opts1)
      in \<lparr>opts = opts2, goas = []\<rparr>)"

text \<open>\<open>Enabled\<close> is \<open>None\<close> where the Go code dereferences a nil \<open>Leveler\<close>.\<close>

definition Enabled :: "handler \<Rightarrow> Level \<Rightarrow> bool option" where
  "Enabled h level =
     (case Level_opt (opts h) of None \<Rightarrow> None | Some l \<Rightarrow> Some (level \<ge> l))"

definition withGroupOrAttrs :: "handler \<Rightarrow> groupOrAttrs \<Rightarrow> handler" where
  "withGroupOrAttrs h goa = h\<lparr>goas := goas h @ [goa]\<rparr>"

definition WithAttrs :: "handler \<Rightarrow> Attr list \<Rightarrow> handler" where
  "WithAttrs h as = withGroupOrAttrs h \<lparr>group = [], attrs = as\<rparr>"

definition WithGroup :: "handler \<Rightarrow> string \<Rightarrow> handler" where
  "WithGroup h name = withGroupOrAttrs h \<lparr>group = name, attrs = []\<rparr>"

definition replaceAttr :: "handler \<Rightarrow> string list \<Rightarrow> Attr \<Rightarrow> Attr" where
  "replaceAttr h groups a =
     (case ReplaceAttr_opt (opts h) of None \<Rightarrow> a | Some f \<Rightarrow> f groups a)"

text \<open>
  A record of \<open>slog\<close>: \<open>Time\<close> is the instant in nanoseconds after the zero time, so
  \<open>IsZero\<close> is \<open>Time r = 0\<close>; \<open>Source\<close> is what \<open>r.Source()\<close> returns.
\<close>

record Record =
  Time :: int
  Message :: string
  Level :: Level
  Source :: "slog_Source option"
  Attrs :: "Attr list"

text \<open>Lines 119 to 133: the fields the handler computes itself.\<close>

definition initOut :: "runtime \<Rightarrow> handler \<Rightarrow> Record \<Rightarrow> omap" where
  "initOut rt h r =
     (let out0 = Map.empty;
          out1 = (if Time r \<noteq> 0
                  then out0(TimeKey \<mapsto> Str (formatRFC3339Nano rt (Time r))) else out0);
          out2 = (if AddSource (opts h)
                  then (case Source r of
                          Some src \<Rightarrow> out1(SourceLocationKey \<mapsto> SourceP (Some src))
                        | None \<Rightarrow> out1)
                  else out1);
          out3 = (if Message r \<noteq> [] then out2(MessageKey \<mapsto> Str (Message r)) else out2)
      in out3(SeverityKey \<mapsto> Str (severityFromLevel (Level r))))"

text \<open>Lines 134 to 139: groups at the end of the list are removed.\<close>

function dropTrailingGroups :: "groupOrAttrs list \<Rightarrow> groupOrAttrs list" where
  "dropTrailingGroups gs =
     (if gs \<noteq> [] \<and> group (last gs) \<noteq> [] then dropTrailingGroups (butlast gs) else gs)"
  by pat_completeness auto
termination
  by (relation "measure length") auto

declare dropTrailingGroups.simps [simp del]

definition trimGoas :: "Record \<Rightarrow> groupOrAttrs list \<Rightarrow> groupOrAttrs list" where
  "trimGoas r gs = (if Attrs r = [] then dropTrailingGroups gs else gs)"

text \<open>
  Lines 140 to 150: the search for an error attribute. The \<open>break\<close> of the inner loop
  leaves the attributes of one entry; the outer loop goes on with the next entry.
\<close>

fun scanAttrs :: "runtime \<Rightarrow> Attr list \<Rightarrow> omap \<Rightarrow> omap" where
  "scanAttrs rt [] out = out"
| "scanAttrs rt (a # as) out =
     (case checkAndSetErrorReport rt a out of
        (True, out') \<Rightarrow> out'
      | (False, out') \<Rightarrow> scanAttrs rt as out')"

fun scanGoas :: "runtime \<Rightarrow> groupOrAttrs list \<Rightarrow> omap \<Rightarrow> omap" where
  "scanGoas rt [] out = out"
| "scanGoas rt (goa # gs) out =
     (if group goa \<noteq> [] then out else scanGoas rt gs (scanAttrs rt (attrs goa) out))"

text \<open>
  The variable \<open>group\<close> of \<open>Handle\<close> points to the map of the innermost open group.
  Each group map is stored in its parent under the group's name when it is created and
  no key of a parent is written afterwards, so the pointer is the path \<open>groups\<close> from
  \<open>out\<close>: \<open>setAt groups k v out\<close> is the assignment \<open>group[k] = v\<close>.
\<close>

fun setAt :: "string list \<Rightarrow> string \<Rightarrow> any \<Rightarrow> omap \<Rightarrow> omap" where
  "setAt [] k v m = m(k \<mapsto> v)"
| "setAt (g # gs) k v m =
     (case m g of Some (MapV m') \<Rightarrow> m(g \<mapsto> MapV (setAt gs k v m')) | _ \<Rightarrow> m)"

text \<open>Lines 156 to 169: the replay of the groups and attributes of the handler.\<close>

fun replayAttrs :: "handler \<Rightarrow> string list \<Rightarrow> Attr list \<Rightarrow> omap \<Rightarrow> omap" where
  "replayAttrs h groups [] out = out"
| "replayAttrs h groups (a # as) out =
     (let a' = replaceAttr h groups a
      in replayAttrs h groups as (setAt groups (fst a') (snd a') out))"

fun replayGoas ::
  "handler \<Rightarrow> groupOrAttrs list \<Rightarrow> omap \<times> string list \<Rightarrow> omap \<times> string list" where
  "replayGoas h [] st = st"
| "replayGoas h (goa # gs) (out, groups) =
     (if group goa \<noteq> []
      then replayGoas h gs (setAt groups (group goa) (MapV Map.empty) out,
                            groups @ [group goa])
      else replayGoas h gs (replayAttrs h groups (attrs goa) out, groups))"

text \<open>Lines 171 to 179: the attributes of the record.\<close>

fun handleAttrs :: "runtime \<Rightarrow> handler \<Rightarrow> string list \<Rightarrow> Attr list \<Rightarrow> omap \<Rightarrow> omap" where
  "handleAttrs rt h groups [] out = out"
| "handleAttrs rt h groups (a # as) out =
     (let a' = replaceAttr h groups a;
          out1 = (if groups = [] then snd (checkAndSetErrorReport rt a' out) else out)
      in handleAttrs rt h groups as (setAt groups (fst a') (extractValue (snd a')) out1))"

definition Handle :: "runtime \<Rightarrow> handler \<Rightarrow> Record \<Rightarrow> omap" where
  "Handle rt h r =
     (let out0 = initOut rt h r;
          gs = trimGoas r (goas h);
          out1 = scanGoas rt gs out0;
          (out2, groups) = replayGoas h gs (out1, [])
      in handleAttrs rt h groups (Attrs r) out2)"

section \<open>ReplaceAttr (replace.go)\<close>

text \<open>\<open>slog.Value.String\<close>: the string itself for a string, else as \<open>fmt\<close> prints it.\<close>

definition Value_String :: "runtime \<Rightarrow> any \<Rightarrow> string" where
  "Value_String rt v = (case v of Str s \<Rightarrow> s | _ \<Rightarrow> fmtValue rt v)"

definition ReplaceAttr :: "runtime \<Rightarrow> string list \<Rightarrow> Attr \<Rightarrow> Attr" where
  "ReplaceAttr rt groups a =
     (if fst a = slog_TimeKey \<and> groups = [] then a
      else if fst a = slog_LevelKey \<and> groups = [] then
        (case snd a of
           LevelV logLevel \<Rightarrow>
             if logLevel = LevelDebug then (SeverityKey, Str DebugSeverity)
             else if logLevel = LevelInfo then (SeverityKey, Str InfoSeverity)
             else if logLevel = LevelWarning then (SeverityKey, Str WarningSeverity)
             else if logLevel = LevelError then (SeverityKey, Str ErrorSeverity)
             else (SeverityKey, Str DefaultSeverity)
         | _ \<Rightarrow> (SeverityKey, Str DefaultSeverity))
      else if fst a = slog_SourceKey \<and> groups = [] then
        (case snd a of
           SourceP (Some src) \<Rightarrow> (SourceLocationKey, SourceP (Some src))
         | _ \<Rightarrow> a)
      else if fst a = slog_MessageKey \<and> groups = [] then
        (MessageKey, Str (Value_String rt (snd a)))
      else a)"

section \<open>Keys written into the top-level map\<close>



section \<open>Values of the package's tests\<close>

text \<open>
  The mocks of error\_reporting\_test.go and sloggcp\_test.go, the hook of the example
  that renames the key \<open>err\<close>, a runtime in which \<open>fmt\<close> prints \<open>int64\<close> and
  \<open>42\<close>, and a record without time and source.
\<close>

definition mockReportLocation :: ReportLocation where
  "mockReportLocation =
     \<lparr>FilePath = ''file.go'', LineNumber = 42, FunctionName = ''package.function''\<rparr>"

definition mockStackAndReport :: "bool \<Rightarrow> any" where
  "mockStackAndReport returnStack =
     Obj ''mockStackAndReport'' None False (Some ''mockStackAndReport'') None
       (Some (if returnStack then (''stack'', True) else ([], False)))
       (Some (Some mockReportLocation))"

definition errors_New :: "string \<Rightarrow> any" where
  "errors_New text = Obj ''*errors.errorString'' None False (Some text) None None None"

definition stringer :: any where
  "stringer = Obj ''stringer'' None False None (Some ''stringer'') None None"

definition errHook :: "string list \<Rightarrow> Attr \<Rightarrow> Attr" where
  "errHook groups a =
     (if groups \<noteq> [] then a else if fst a = ''err'' then (ErrorKey, snd a) else a)"

definition testRuntime :: runtime where
  "testRuntime =
     \<lparr>fmtT = (\<lambda>v. ''int64''), fmtV = (\<lambda>v. ''42''), fmtValue = (\<lambda>v. ''42''),
      formatRFC3339Nano = (\<lambda>t. ''2026-01-01T00:00:00Z''),
      thisFile = ''error_reporting.go'', callers = [], callerBelow = (\<lambda>n. None)\<rparr>"

definition testRecord :: "string \<Rightarrow> Level \<Rightarrow> Attr list \<Rightarrow> Record" where
  "testRecord msg level as =
     \<lparr>Time = 0, Message = msg, Level = level, Source = None, Attrs = as\<rparr>"

section \<open>Properties\<close>

lemmas [key_defs] =
  SeverityKey_def MessageKey_def SourceLocationKey_def TimeKey_def ErrorKey_def
  ErrorReportTypeKey_def ErrorReportTypeValue_def ReportLocationKey_def
  FilePathKey_def LineNumberKey_def FunctionNameKey_def
  slog_TimeKey_def slog_LevelKey_def slog_MessageKey_def slog_SourceKey_def

lemmas [level_defs] =
  LevelDebug_def LevelInfo_def LevelNotice_def LevelWarning_def LevelError_def
  LevelCritical_def LevelAlert_def LevelEmergency_def

lemmas [severity_defs] =
  DefaultSeverity_def DebugSeverity_def InfoSeverity_def NoticeSeverity_def
  WarningSeverity_def ErrorSeverity_def CriticalSeverity_def AlertSeverity_def
  EmergencySeverity_def

lemmas fixture_defs =
  mockReportLocation_def mockStackAndReport_def errors_New_def stringer_def
  testRuntime_def testRecord_def

lemmas handler_defs =
  NewErrorReportingHandler_def DefaultOpts_def WithAttrs_def WithGroup_def
  withGroupOrAttrs_def replaceAttr_def

subsection \<open>The phases of Handle\<close>

lemma asError_None_caps:
  "asError v = None \<Longrightarrow> asStackTraceError v = None \<and> asReportLocationError v = None"
  by (cases v) auto

lemma NewReportLocation_own_frame:
  "NewReportLocation rt (assertErrorValue_frame rt # st) 0 =
     Some \<lparr>FilePath = thisFile rt, LineNumber = 66,
           FunctionName = ''github.com/zitadel/sloggcp.assertErrorValue''\<rparr>"
  by (simp add: NewReportLocation_def runtime_Caller_def wrap_int_def assertErrorValue_frame_def)

lemma checkAndSetErrorReport_other_key:
  "fst a \<noteq> ErrorKey \<Longrightarrow> checkAndSetErrorReport rt a out = (False, out)"
  by (simp add: checkAndSetErrorReport_def)

lemma checkAndSetErrorReport_fires:
  "fst a = ErrorKey \<Longrightarrow> fst (checkAndSetErrorReport rt a out) = True"
  by (simp add: checkAndSetErrorReport_def Let_def split: prod.splits)




lemma dropTrailingGroups_snoc:
  "dropTrailingGroups (gs @ [g]) = (if group g \<noteq> [] then dropTrailingGroups gs else gs @ [g])"
  by (subst dropTrailingGroups.simps) simp

lemma dropTrailingGroups_Nil: "dropTrailingGroups [] = []"
  by (subst dropTrailingGroups.simps) simp

lemma dropTrailingGroups_rev:
  "dropTrailingGroups gs = rev (dropWhile (\<lambda>e. group e \<noteq> []) (rev gs))"
  by (induction gs rule: rev_induct) (simp_all add: dropTrailingGroups_snoc dropTrailingGroups_Nil)

lemma set_trimGoas: "set (trimGoas r gs) \<subseteq> set gs"
  using set_dropWhileD [of _ "\<lambda>e. group e \<noteq> []" "rev gs"]
  by (auto simp add: trimGoas_def dropTrailingGroups_rev)




lemma replayGoas_no_group:
  "\<forall>g \<in> set gs. group g = [] \<Longrightarrow> snd (replayGoas h gs (out, groups)) = groups"
  by (induction gs arbitrary: out) simp_all


lemma handleAttrs_append:
  "handleAttrs rt h groups (xs @ ys) out =
     handleAttrs rt h groups ys (handleAttrs rt h groups xs out)"
  by (induction xs arbitrary: out) (simp_all add: Let_def)

lemma checkAndSetErrorReport_frame:
  "k \<noteq> ErrorReportTypeKey \<Longrightarrow> k \<noteq> MessageKey \<Longrightarrow> k \<noteq> ErrorKey \<Longrightarrow>
   k \<noteq> ReportLocationKey \<Longrightarrow> snd (checkAndSetErrorReport rt a out) k = out k"
  by (simp add: checkAndSetErrorReport_def Let_def split: prod.splits option.splits)

lemma checkAndSetErrorReport_fields:
  assumes "fst a = ErrorKey"
  shows "snd (checkAndSetErrorReport rt a out) ErrorReportTypeKey = Some (Str ErrorReportTypeValue)"
    and "snd (checkAndSetErrorReport rt a out) MessageKey =
           Some (Str (fst (assertErrorValue rt (snd a))))"
    and "snd (checkAndSetErrorReport rt a out) ErrorKey =
           Some (case asLogValuer (snd a) of
                   Some lv \<Rightarrow> extractValue lv
                 | None \<Rightarrow> (case asError (snd a) of Some m \<Rightarrow> Str m | None \<Rightarrow> snd a))"
    and "snd (checkAndSetErrorReport rt a out) ReportLocationKey =
           (case snd (assertErrorValue rt (snd a)) of
              Some l \<Rightarrow> Some (LocP l)
            | None \<Rightarrow> out ReportLocationKey)"
  using assms
  by (simp_all add: checkAndSetErrorReport_def Let_def key_defs split: prod.splits option.splits)

lemma handleAttrs_top_other:
  "\<forall>b \<in> set ys. fst (replaceAttr h [] b) \<noteq> k
      \<and> (fst (replaceAttr h [] b) = ErrorKey \<longrightarrow>
           k \<noteq> ErrorReportTypeKey \<and> k \<noteq> MessageKey \<and> k \<noteq> ReportLocationKey) \<Longrightarrow>
   handleAttrs rt h [] ys out k = out k"
proof (induction ys arbitrary: out)
  case Nil
  then show ?case by simp
next
  case (Cons b ys)
  let ?b = "replaceAttr h [] b"
  let ?out1 = "snd (checkAndSetErrorReport rt ?b out)"
  let ?out2 = "setAt [] (fst ?b) (extractValue (snd ?b)) ?out1"
  have b: "fst ?b \<noteq> k"
    using Cons.prems by simp
  have "?out1 k = out k"
  proof (cases "fst ?b = ErrorKey")
    case True
    with Cons.prems have "k \<noteq> ErrorReportTypeKey" "k \<noteq> MessageKey" "k \<noteq> ErrorKey"
      "k \<noteq> ReportLocationKey"
      by auto
    then show ?thesis by (rule checkAndSetErrorReport_frame)
  next
    case False
    then show ?thesis by (simp add: checkAndSetErrorReport_other_key)
  qed
  with b have step: "?out2 k = out k"
    by simp
  have rest: "\<forall>b \<in> set ys. fst (replaceAttr h [] b) \<noteq> k
      \<and> (fst (replaceAttr h [] b) = ErrorKey \<longrightarrow>
           k \<noteq> ErrorReportTypeKey \<and> k \<noteq> MessageKey \<and> k \<noteq> ReportLocationKey)"
    using Cons.prems by simp
  have unfold: "handleAttrs rt h [] (b # ys) out = handleAttrs rt h [] ys ?out2"
    by (simp add: Let_def)
  have "handleAttrs rt h [] ys ?out2 k = ?out2 k"
    by (rule Cons.IH [OF rest])
  with step show ?case
    unfolding unfold by simp
qed

lemma Handle_no_group:
  assumes "\<forall>g \<in> set (goas h). group g = []"
  shows "Handle rt h r =
           handleAttrs rt h [] (Attrs r)
             (fst (replayGoas h (trimGoas r (goas h))
                    (scanGoas rt (trimGoas r (goas h)) (initOut rt h r), [])))"
proof -
  have "\<forall>g \<in> set (trimGoas r (goas h)). group g = []"
    using assms set_trimGoas by blast
  then have "snd (replayGoas h (trimGoas r (goas h))
                    (scanGoas rt (trimGoas r (goas h)) (initOut rt h r), [])) = []"
    by (rule replayGoas_no_group)
  then show ?thesis
    by (simp add: Handle_def Let_def case_prod_beta)
qed

lemma handleAttrs_in_group:
  "out g = Some (MapV m) \<Longrightarrow> \<exists>m'. handleAttrs rt h [g] as out g = Some (MapV m')"
  by (induction as arbitrary: out m) (simp_all add: Let_def)

lemma Handle_group_only:
  assumes "goas h0 = []" and "Attrs r = []"
  shows "Handle rt (WithGroup h0 g) r = initOut rt (WithGroup h0 g) r"
  using assms
  by (simp add: Handle_def trimGoas_def WithGroup_def withGroupOrAttrs_def
      dropTrailingGroups_snoc [of "[]", simplified] dropTrailingGroups_Nil)

lemma initOut_keys:
  "k \<noteq> TimeKey \<Longrightarrow> k \<noteq> SourceLocationKey \<Longrightarrow> k \<noteq> MessageKey \<Longrightarrow> k \<noteq> SeverityKey \<Longrightarrow>
   initOut rt h r k = None"
  by (simp add: initOut_def Let_def split: option.splits)
















lemma severityRank_values:
  "severityRank DefaultSeverity = 0" "severityRank DebugSeverity = 1"
  "severityRank InfoSeverity = 2" "severityRank NoticeSeverity = 3"
  "severityRank WarningSeverity = 4" "severityRank ErrorSeverity = 5"
  "severityRank CriticalSeverity = 6" "severityRank AlertSeverity = 7"
  "severityRank EmergencySeverity = 8"
  by (simp_all add: severityRank_def severities_def severity_defs)

lemma severityRank_severityFromLevel:
  "severityRank (severityFromLevel l) =
     (if l \<ge> 14 then 8 else if l \<ge> 12 then 7 else if l \<ge> 10 then 6
      else if l \<ge> 8 then 5 else if l \<ge> 4 then 4 else if l \<ge> 2 then 3
      else if l \<ge> 0 then 2 else if l \<ge> - 4 then 1 else 0)"
  by (simp add: severityFromLevel_def level_defs severityRank_values)

subsection \<open>The error report\<close>




text \<open>
  C2, at an input where the code departs from it. An error value and a stringer added
  with \<open>WithAttrs\<close> reach the document as they are, since the replay stores
  \<open>a.Value.Any()\<close>, while \<open>extractValue\<close> turns them into their texts, and the
  same attributes given with the record are stored as these texts.
\<close>

theorem C2_stack_attrs_not_flattened:
  "Handle rt (WithAttrs (NewErrorReportingHandler None)
             [(''cause'', errors_New ''boom''), (''who'', stringer)])
     (testRecord ''msg'' LevelInfo []) ''cause'' = Some (errors_New ''boom'')
   \<and> Handle rt (WithAttrs (NewErrorReportingHandler None)
             [(''cause'', errors_New ''boom''), (''who'', stringer)])
     (testRecord ''msg'' LevelInfo []) ''who'' = Some stringer
   \<and> extractValue (errors_New ''boom'') = Str ''boom''
   \<and> extractValue stringer = Str ''stringer''
   \<and> Handle rt (NewErrorReportingHandler None)
     (testRecord ''msg'' LevelInfo [(''cause'', errors_New ''boom''), (''who'', stringer)])
     ''cause'' = Some (Str ''boom'')
   \<and> Handle rt (NewErrorReportingHandler None)
     (testRecord ''msg'' LevelInfo [(''cause'', errors_New ''boom''), (''who'', stringer)])
     ''who'' = Some (Str ''stringer'')"
  by (simp add: Handle_def trimGoas_def dropTrailingGroups.simps handler_defs fixture_defs
      checkAndSetErrorReport_def key_defs)

text \<open>
  C3, at an input where the code departs from it. The hook renames \<open>err\<close> to the
  error key. For an attribute \<open>err\<close> added with \<open>WithAttrs\<close> the search for the
  error reads the key before the hook: the document has no type marker and keeps the
  message of the record, although the replay stores the value under the error key. The
  same attribute given with the record makes an error report.
\<close>

theorem C3_hook_not_applied_before_scan:
  "Handle rt (WithAttrs (NewErrorReportingHandler
                (Some (DefaultOpts\<lparr>ReplaceAttr_opt := Some errHook\<rparr>)))
             [(''err'', Str ''something went wrong'')])
     (testRecord ''error message'' LevelError []) ErrorReportTypeKey = None
   \<and> Handle rt (WithAttrs (NewErrorReportingHandler
                (Some (DefaultOpts\<lparr>ReplaceAttr_opt := Some errHook\<rparr>)))
             [(''err'', Str ''something went wrong'')])
     (testRecord ''error message'' LevelError []) MessageKey = Some (Str ''error message'')
   \<and> Handle rt (WithAttrs (NewErrorReportingHandler
                (Some (DefaultOpts\<lparr>ReplaceAttr_opt := Some errHook\<rparr>)))
             [(''err'', Str ''something went wrong'')])
     (testRecord ''error message'' LevelError []) ErrorKey = Some (Str ''something went wrong'')
   \<and> Handle rt (NewErrorReportingHandler (Some (DefaultOpts\<lparr>ReplaceAttr_opt := Some errHook\<rparr>)))
     (testRecord ''error message'' LevelError [(''err'', Str ''something went wrong'')])
     ErrorReportTypeKey = Some (Str ErrorReportTypeValue)
   \<and> Handle rt (NewErrorReportingHandler (Some (DefaultOpts\<lparr>ReplaceAttr_opt := Some errHook\<rparr>)))
     (testRecord ''error message'' LevelError [(''err'', Str ''something went wrong'')])
     MessageKey = Some (Str ''something went wrong'')"
  by (simp add: Handle_def trimGoas_def dropTrailingGroups.simps handler_defs fixture_defs
      checkAndSetErrorReport_def assertErrorValue_def errHook_def initOut_def key_defs Let_def)

text \<open>
  C4. For an error value: when \<open>StackTrace\<close> returns a non-empty trace and
  \<open>true\<close>, the message is the trace; when the trace is empty or the flag is
  \<open>false\<close>, or the value has no \<open>StackTrace\<close>, the message is the text of the
  error. In each case the location is what \<open>ReportLocation\<close> returns, and nil
  when the value has no such method.
\<close>

theorem C4_error_value_message:
  assumes "asError v = Some msg"
  shows "(\<forall>trace. asStackTraceError v = Some (trace, True) \<and> trace \<noteq> [] \<longrightarrow>
            assertErrorValue rt v =
              (trace, case asReportLocationError v of Some l \<Rightarrow> l | None \<Rightarrow> None))
       \<and> (\<forall>trace ok. asStackTraceError v = Some (trace, ok) \<and> (trace = [] \<or> \<not> ok) \<longrightarrow>
            assertErrorValue rt v =
              (msg, case asReportLocationError v of Some l \<Rightarrow> l | None \<Rightarrow> None))
       \<and> (asStackTraceError v = None \<longrightarrow>
            assertErrorValue rt v =
              (msg, case asReportLocationError v of Some l \<Rightarrow> l | None \<Rightarrow> None))"
  using assms by (auto simp add: assertErrorValue_def)

theorem C4_witness:
  "asError (mockStackAndReport True) = Some ''mockStackAndReport''
   \<and> assertErrorValue testRuntime (mockStackAndReport True) = (''stack'', Some mockReportLocation)
   \<and> assertErrorValue testRuntime (mockStackAndReport False)
       = (''mockStackAndReport'', Some mockReportLocation)"
  using C4_error_value_message [of "mockStackAndReport True" "''mockStackAndReport''" testRuntime]
    C4_error_value_message [of "mockStackAndReport False" "''mockStackAndReport''" testRuntime]
  by (auto simp add: mockStackAndReport_def)

subsection \<open>ReplaceAttr\<close>

text \<open>
  C5, as the code has it. At depth zero \<open>ReplaceAttr\<close> turns the level key into
  the severity key. The label is the one \<open>severityFromLevel\<close> gives when the
  value is exactly one of the four levels debug, info, warning and error of \<open>slog\<close>;
  for every other level, and for a value that is no level, it is \<open>DEFAULT\<close>.
\<close>

theorem C5_ReplaceAttr_level:
  "ReplaceAttr rt [] (slog_LevelKey, v) =
     (SeverityKey,
      Str (case v of
             LevelV l \<Rightarrow>
               if l = LevelDebug \<or> l = LevelInfo \<or> l = LevelWarning \<or> l = LevelError
               then severityFromLevel l else DefaultSeverity
           | _ \<Rightarrow> DefaultSeverity))"
  by (cases v) (auto simp add: ReplaceAttr_def severityFromLevel_def level_defs key_defs)

text \<open>
  C5 as stated fails at the level notice: \<open>ReplaceAttr\<close> answers \<open>DEFAULT\<close>,
  \<open>severityFromLevel\<close> answers \<open>NOTICE\<close>.
\<close>

theorem C5_counterexample:
  "ReplaceAttr testRuntime [] (slog_LevelKey, LevelV LevelNotice) = (SeverityKey, Str ''DEFAULT'')
   \<and> severityFromLevel LevelNotice = ''NOTICE''"
  by (simp add: ReplaceAttr_def severityFromLevel_def level_defs severity_defs key_defs)

subsection \<open>Groups\<close>

text \<open>
  C6. The groups at the end of the handler's list are dropped exactly when the record
  has no attributes: then the list is cut back to its last entry that is no group, and
  otherwise it is replayed whole. A handler derived with the group \<open>g\<close> gives a
  document without the key \<open>g\<close> for a record without attributes, and one with a map
  under \<open>g\<close> for a record with attributes; derived with the group \<open>g\<close> and then
  the attribute \<open>bar = baz\<close>, it gives \<open>g: {bar: baz}\<close> for a record without
  attributes.
\<close>

theorem C6_trailing_groups:
  "(Attrs r \<noteq> [] \<longrightarrow> trimGoas r gs = gs)
   \<and> (Attrs r = [] \<longrightarrow> trimGoas r gs = rev (dropWhile (\<lambda>e. group e \<noteq> []) (rev gs)))
   \<and> (goas h0 = [] \<and> Attrs r = [] \<longrightarrow> Handle rt (WithGroup h0 ''g'') r ''g'' = None)
   \<and> (goas h0 = [] \<and> Attrs r \<noteq> [] \<longrightarrow>
        (\<exists>m. Handle rt (WithGroup h0 ''g'') r ''g'' = Some (MapV m)))
   \<and> (goas h0 = [] \<and> ReplaceAttr_opt (opts h0) = None \<and> Attrs r = [] \<longrightarrow>
        Handle rt (WithAttrs (WithGroup h0 ''g'') [(''bar'', Str ''baz'')]) r ''g''
          = Some (MapV (Map.empty(''bar'' \<mapsto> Str ''baz''))))"
proof (intro conjI impI)
  show "trimGoas r gs = gs" if "Attrs r \<noteq> []"
    using that by (simp add: trimGoas_def)
  show "trimGoas r gs = rev (dropWhile (\<lambda>e. group e \<noteq> []) (rev gs))" if "Attrs r = []"
    using that by (simp add: trimGoas_def dropTrailingGroups_rev)
  show "Handle rt (WithGroup h0 ''g'') r ''g'' = None" if "goas h0 = [] \<and> Attrs r = []"
    using that by (simp add: Handle_group_only initOut_keys key_defs)
  show "\<exists>m. Handle rt (WithGroup h0 ''g'') r ''g'' = Some (MapV m)"
    if "goas h0 = [] \<and> Attrs r \<noteq> []"
    using that
    by (simp add: Handle_def trimGoas_def WithGroup_def withGroupOrAttrs_def handleAttrs_in_group)
  show "Handle rt (WithAttrs (WithGroup h0 ''g'') [(''bar'', Str ''baz'')]) r ''g''
          = Some (MapV (Map.empty(''bar'' \<mapsto> Str ''baz'')))"
    if "goas h0 = [] \<and> ReplaceAttr_opt (opts h0) = None \<and> Attrs r = []"
    using that
    by (simp add: Handle_def trimGoas_def WithGroup_def WithAttrs_def withGroupOrAttrs_def
        replaceAttr_def dropTrailingGroups.simps)
qed

theorem C6_witness:
  "Handle testRuntime (WithGroup (NewErrorReportingHandler None) ''g'')
       (testRecord ''info message'' LevelInfo []) ''g'' = None
   \<and> (\<exists>m. Handle testRuntime (WithGroup (NewErrorReportingHandler None) ''g'')
       (testRecord ''info message'' LevelInfo [(''n'', Int64V 1)]) ''g'' = Some (MapV m))
   \<and> Handle testRuntime
       (WithAttrs (WithGroup (NewErrorReportingHandler None) ''g'') [(''bar'', Str ''baz'')])
       (testRecord ''info message'' LevelInfo []) ''g''
       = Some (MapV (Map.empty(''bar'' \<mapsto> Str ''baz'')))
   \<and> trimGoas (testRecord ''info message'' LevelInfo [])
        [\<lparr>group = [], attrs = [(''bar'', Str ''baz'')]\<rparr>, \<lparr>group = ''g'', attrs = []\<rparr>]
       = [\<lparr>group = [], attrs = [(''bar'', Str ''baz'')]\<rparr>]
   \<and> trimGoas (testRecord ''info message'' LevelInfo [(''n'', Int64V 1)])
        [\<lparr>group = [], attrs = [(''bar'', Str ''baz'')]\<rparr>, \<lparr>group = ''g'', attrs = []\<rparr>]
       = [\<lparr>group = [], attrs = [(''bar'', Str ''baz'')]\<rparr>, \<lparr>group = ''g'', attrs = []\<rparr>]"
  using C6_trailing_groups [of "testRecord ''info message'' LevelInfo []"
      "[\<lparr>group = [], attrs = [(''bar'', Str ''baz'')]\<rparr>, \<lparr>group = ''g'', attrs = []\<rparr>]"
      "NewErrorReportingHandler None" testRuntime]
    C6_trailing_groups [of "testRecord ''info message'' LevelInfo [(''n'', Int64V 1)]"
      "[\<lparr>group = [], attrs = [(''bar'', Str ''baz'')]\<rparr>, \<lparr>group = ''g'', attrs = []\<rparr>]"
      "NewErrorReportingHandler None" testRuntime]
  by (simp add: testRecord_def NewErrorReportingHandler_def DefaultOpts_def)

subsection \<open>The fields the handler computes\<close>




subsection \<open>Error values of an unsupported type\<close>

text \<open>
  C8. For a value that is neither a string nor an error, \<open>assertErrorValue\<close>
  returns the message \<open>sloggcp: unsupported type T with value V\<close>, with \<open>T\<close> and
  \<open>V\<close> as \<open>fmt\<close> prints the type and the value, and a report location that is
  not nil: the frame of \<open>assertErrorValue\<close> itself, which \<open>NewReportLocation(0)\<close>
  reads as its caller. An attribute with the error key and such a value makes an error
  report with this message and this location.
\<close>

theorem C8_unsupported_error_value:
  assumes "asError v = None" and "\<forall>s. v \<noteq> Str s"
  shows "assertErrorValue rt v =
           (''sloggcp: unsupported type '' @ fmtT rt v @ '' with value '' @ fmtV rt v,
            Some \<lparr>FilePath = thisFile rt, LineNumber = 66,
                  FunctionName = ''github.com/zitadel/sloggcp.assertErrorValue''\<rparr>)
       \<and> fst (checkAndSetErrorReport rt (ErrorKey, v) out) = True
       \<and> snd (checkAndSetErrorReport rt (ErrorKey, v) out) MessageKey =
           Some (Str (''sloggcp: unsupported type '' @ fmtT rt v @ '' with value ''
                      @ fmtV rt v))
       \<and> snd (checkAndSetErrorReport rt (ErrorKey, v) out) ReportLocationKey =
           Some (LocP \<lparr>FilePath = thisFile rt, LineNumber = 66,
                       FunctionName = ''github.com/zitadel/sloggcp.assertErrorValue''\<rparr>)"
proof -
  have msg: "assertErrorValue rt v =
           (''sloggcp: unsupported type '' @ fmtT rt v @ '' with value '' @ fmtV rt v,
            Some \<lparr>FilePath = thisFile rt, LineNumber = 66,
                  FunctionName = ''github.com/zitadel/sloggcp.assertErrorValue''\<rparr>)"
    using assms asError_None_caps [of v]
    by (cases v) (simp_all add: assertErrorValue_def NewReportLocation_own_frame)
  have key: "fst (ErrorKey, v) = ErrorKey"
    by simp
  show ?thesis
    using checkAndSetErrorReport_fields(2,4) [OF key, of rt out]
      checkAndSetErrorReport_fires [OF key, of rt out]
    by (simp add: msg)
qed

theorem C8_witness:
  "asError (Int64V 42) = None
   \<and> assertErrorValue testRuntime (Int64V 42) =
       (''sloggcp: unsupported type int64 with value 42'',
        Some \<lparr>FilePath = ''error_reporting.go'', LineNumber = 66,
              FunctionName = ''github.com/zitadel/sloggcp.assertErrorValue''\<rparr>)
   \<and> snd (checkAndSetErrorReport testRuntime (ErrorKey, Int64V 42) Map.empty) MessageKey =
       Some (Str ''sloggcp: unsupported type int64 with value 42'')"
  using C8_unsupported_error_value [of "Int64V 42" testRuntime Map.empty]
  by (simp add: testRuntime_def)

subsection \<open>Severity\<close>

text \<open>
  C9. For all levels \<open>L1 \<le> L2\<close> the label of \<open>L1\<close> has a rank no greater than
  the rank of the label of \<open>L2\<close>, and the label of every level is one of the nine
  defined labels.
\<close>

theorem C9_severity_monotone:
  "(L1 \<le> L2 \<longrightarrow> severityRank (severityFromLevel L1) \<le> severityRank (severityFromLevel L2))
   \<and> severityFromLevel L \<in> set severities"
proof
  show "L1 \<le> L2 \<longrightarrow>
        severityRank (severityFromLevel L1) \<le> severityRank (severityFromLevel L2)"
    unfolding severityRank_severityFromLevel by simp
next
  show "severityFromLevel L \<in> set severities"
    by (simp add: severityFromLevel_def severities_def)
qed

theorem C9_severity_monotone_witness:
  "(2::int) \<le> 9
   \<and> severityRank (severityFromLevel 2) \<le> severityRank (severityFromLevel 9)
   \<and> severityFromLevel 2 = ''NOTICE'' \<and> severityFromLevel 9 = ''ERROR''
   \<and> severityFromLevel (- 10) \<in> set severities"
  using C9_severity_monotone [of 2 9 "- 10"]
  by (simp add: severityFromLevel_def level_defs severity_defs)

subsection \<open>Attributes named after a computed field\<close>

text \<open>
  C10. When the handler has opened no group, an attribute of the record whose key (after
  the hook) is \<open>severity\<close>, \<open>message\<close>, \<open>time\<close> or the source location key is
  written into the top-level map after the computed fields: the document holds the
  flattened value of the last such attribute under that key, not the computed field
  (for \<open>message\<close>, when no later attribute of the record is the error, whose report
  writes the message again).
\<close>

theorem C10_record_attr_overwrites_builtin:
  assumes "\<forall>g \<in> set (goas h). group g = []"
    and "Attrs r = xs @ a # ys"
    and "fst (replaceAttr h [] a) = k"
    and "k \<in> {SeverityKey, MessageKey, TimeKey, SourceLocationKey}"
    and "\<forall>b \<in> set ys. fst (replaceAttr h [] b) \<noteq> k
           \<and> (k = MessageKey \<longrightarrow> fst (replaceAttr h [] b) \<noteq> ErrorKey)"
  shows "Handle rt h r k = Some (extractValue (snd (replaceAttr h [] a)))"
proof -
  have k: "k \<noteq> ErrorKey" "k \<noteq> ErrorReportTypeKey" "k \<noteq> ReportLocationKey"
    using assms(4) by (auto simp add: key_defs)
  have later: "\<forall>b \<in> set ys. fst (replaceAttr h [] b) \<noteq> k
      \<and> (fst (replaceAttr h [] b) = ErrorKey \<longrightarrow>
           k \<noteq> ErrorReportTypeKey \<and> k \<noteq> MessageKey \<and> k \<noteq> ReportLocationKey)"
    using assms(5) k by blast
  show ?thesis
    unfolding Handle_no_group [OF assms(1)] assms(2) handleAttrs_append
    using assms(3) by (simp add: Let_def handleAttrs_top_other [OF later])
qed

theorem C10_witness:
  "Handle testRuntime (WithAttrs (NewErrorReportingHandler None) [(''user'', Str ''bob'')])
     (testRecord ''hello'' LevelInfo [(''severity'', Str ''EMERGENCY''), (''n'', Int64V 1)])
     SeverityKey = Some (Str ''EMERGENCY'')
   \<and> severityFromLevel LevelInfo = ''INFO''"
  using C10_record_attr_overwrites_builtin [of
      "WithAttrs (NewErrorReportingHandler None) [(''user'', Str ''bob'')]"
      "testRecord ''hello'' LevelInfo [(''severity'', Str ''EMERGENCY''), (''n'', Int64V 1)]"
      "[]" "(''severity'', Str ''EMERGENCY'')" "[(''n'', Int64V 1)]" SeverityKey testRuntime]
  by (simp add: handler_defs testRecord_def key_defs severityFromLevel_def level_defs severity_defs)

end
